theory Spec2Isabelle
  imports
    Main
    "HOL-Library.Char_ord"
    "HOL-Library.List_Lexorder"
    "HOL-Library.Product_Lexorder"
begin

section \<open>Python values used by pbr/version.py\<close>

text \<open>
  The module works on Python integers (unbounded, hence \<^typ>\<open>int\<close>), on text and on
  \<^verbatim>\<open>None\<close>. Text is modelled as \<^typ>\<open>string\<close> and is taken to be ASCII: the character
  classes below are those of \<^verbatim>\<open>str.isdigit\<close>, \<^verbatim>\<open>str.isalpha\<close> and of the
  whitespace that \<^verbatim>\<open>int()\<close> strips, restricted to code points below 128. An optional
  argument is an \<^typ>\<open>'a option\<close> with \<^verbatim>\<open>None\<close> as \<^term>\<open>None\<close>. The exceptions the
  module can raise are the constructors of \<open>py_error\<close>; a function that can raise
  returns \<open>py_error + 'a\<close>.
\<close>

datatype py_error = ValueError | TypeError | IndexError

text \<open>Sequencing of two steps that can raise: the first exception raised propagates.\<close>

fun bind_err :: "'e + 'a \<Rightarrow> ('a \<Rightarrow> 'e + 'b) \<Rightarrow> 'e + 'b" where
  "bind_err (Inl e) f = Inl e"
| "bind_err (Inr x) f = f x"

text \<open>
  An element of the list \<^verbatim>\<open>components\<close>: a piece of the split text, or the integer
  \<^verbatim>\<open>0\<close> that \<^verbatim>\<open>from_pip_string\<close> pads and inserts.
\<close>

datatype py_val = S string | I int

text \<open>Truth value of an optional text and of an optional integer in a condition.\<close>

fun truthy_str :: "string option \<Rightarrow> bool" where
  "truthy_str None = False"
| "truthy_str (Some s) = (s \<noteq> [])"

fun truthy_int :: "int option \<Rightarrow> bool" where
  "truthy_int None = False"
| "truthy_int (Some n) = (n \<noteq> 0)"

subsection \<open>Character classes\<close>

definition isdigit :: "char \<Rightarrow> bool" where
  "isdigit c = (c \<in> set ''0123456789'')"

definition isalpha :: "char \<Rightarrow> bool" where
  "isalpha c = (c \<in> set ''abcdefghijklmnopqrstuvwxyzABCDEFGHIJKLMNOPQRSTUVWXYZ'')"

definition isspace :: "char \<Rightarrow> bool" where
  "isspace c = (c \<in> set [CHR 0x09, CHR 0x0A, CHR 0x0B, CHR 0x0C, CHR 0x0D,
                          CHR 0x1C, CHR 0x1D, CHR 0x1E, CHR 0x1F, CHR '' ''])"

subsection \<open>\<^verbatim>\<open>str(n)\<close> for an integer\<close>

definition digit_char :: "nat \<Rightarrow> char" where
  "digit_char d = ''0123456789'' ! d"

fun str_nat :: "nat \<Rightarrow> string" where
  "str_nat n = (if n < 10 then [digit_char n] else str_nat (n div 10) @ [digit_char (n mod 10)])"

declare str_nat.simps [simp del]

definition str_int :: "int \<Rightarrow> string" where
  "str_int i = (if i < 0 then CHR ''-'' # str_nat (nat (- i)) else str_nat (nat i))"

text \<open>
  \<^verbatim>\<open>str(x)\<close> and \<^verbatim>\<open>"%s" % x\<close> for an attribute that holds an integer or \<^verbatim>\<open>None\<close>, and for
  one that holds text or \<^verbatim>\<open>None\<close>.
\<close>

fun str_opt_int :: "int option \<Rightarrow> string" where
  "str_opt_int None = ''None''"
| "str_opt_int (Some n) = str_int n"

fun str_opt_str :: "string option \<Rightarrow> string" where
  "str_opt_str None = ''None''"
| "str_opt_str (Some s) = s"

subsection \<open>\<^verbatim>\<open>int(x)\<close>\<close>

text \<open>
  \<^verbatim>\<open>int\<close> of text: surrounding whitespace is stripped, one sign is allowed, and the
  rest is a non-empty run of decimal digits in which single underscores may separate
  digits. Anything else raises \<^verbatim>\<open>ValueError\<close>. \<^verbatim>\<open>int\<close> of an integer is that integer.
  Integers are unbounded; the cap that recent interpreters put on the number of digits
  converted is not modelled.
\<close>

definition strip :: "string \<Rightarrow> string" where
  "strip s = rev (dropWhile isspace (rev (dropWhile isspace s)))"

fun int_body :: "string \<Rightarrow> bool" where
  "int_body [] = False"
| "int_body [c] = isdigit c"
| "int_body (c # d # cs) =
     (isdigit c \<and> (if d = CHR ''_'' then int_body cs else int_body (d # cs)))"

definition digit_val :: "char \<Rightarrow> nat" where
  "digit_val c = of_char c - 48"

fun digits_val :: "nat \<Rightarrow> string \<Rightarrow> nat" where
  "digits_val acc [] = acc"
| "digits_val acc (c # cs) = digits_val (10 * acc + digit_val c) cs"

definition parse_body :: "string \<Rightarrow> nat option" where
  "parse_body ds =
     (if int_body ds then Some (digits_val 0 (filter (\<lambda>c. c \<noteq> CHR ''_'') ds)) else None)"

definition int_of_str :: "string \<Rightarrow> int option" where
  "int_of_str s =
     (case strip s of
        [] \<Rightarrow> None
      | c # cs \<Rightarrow>
          if c = CHR ''-'' then map_option (\<lambda>n. - int n) (parse_body cs)
          else if c = CHR ''+'' then map_option int (parse_body cs)
          else map_option int (parse_body (c # cs)))"

fun py_int :: "py_val \<Rightarrow> py_error + int" where
  "py_int (I n) = Inr n"
| "py_int (S s) = (case int_of_str s of None \<Rightarrow> Inl ValueError | Some n \<Rightarrow> Inr n)"

text \<open>\<^verbatim>\<open>_is_int\<close>: does \<^verbatim>\<open>int\<close> succeed.\<close>

fun is_int :: "py_val \<Rightarrow> bool" where
  "is_int x = (case py_int x of Inl e \<Rightarrow> False | Inr n \<Rightarrow> True)"

section \<open>The class \<^verbatim>\<open>SemanticVersion\<close>\<close>

text \<open>
  The seven attributes \<^verbatim>\<open>_major\<close>, \<^verbatim>\<open>_minor\<close>, \<^verbatim>\<open>_patch\<close>, \<^verbatim>\<open>_prerelease_type\<close>,
  \<^verbatim>\<open>_prerelease\<close>, \<^verbatim>\<open>_dev_count\<close> and \<^verbatim>\<open>_githash\<close> of an instance. The prerelease type
  is the text the code stores (\<^verbatim>\<open>a\<close>, \<^verbatim>\<open>b\<close>, \<^verbatim>\<open>rc\<close> for alpha, beta, candidate).
\<close>

record semantic_version =
  major :: int
  minor :: int
  patch :: int
  prerelease_type :: "string option"
  prerelease :: "int option"
  dev_count :: "int option"
  githash :: "string option"

text \<open>
  \<^verbatim>\<open>__init__\<close>. The serial becomes \<^verbatim>\<open>0\<close> when the type is true and the serial is not;
  \<^verbatim>\<open>ValueError\<close> is raised when both the type and the dev count are not \<^verbatim>\<open>None\<close>.
\<close>

definition SemanticVersion_init ::
  "int \<Rightarrow> int \<Rightarrow> int \<Rightarrow> string option \<Rightarrow> int option \<Rightarrow> int option \<Rightarrow> string option
     \<Rightarrow> py_error + semantic_version" where
  "SemanticVersion_init major' minor' patch' prerelease_type' prerelease' dev_count' githash' =
     (let prerelease'' =
            (if truthy_str prerelease_type' \<and> \<not> truthy_int prerelease' then Some 0
             else prerelease')
      in if prerelease_type' \<noteq> None \<and> dev_count' \<noteq> None then Inl ValueError
         else Inr \<lparr>major = major', minor = minor', patch = patch',
                   prerelease_type = prerelease_type', prerelease = prerelease'',
                   dev_count = dev_count', githash = githash'\<rparr>)"

text \<open>
  The instances of the class: a record is one when \<^verbatim>\<open>__init__\<close>, called on its
  attributes, returns it.
\<close>

definition constructed :: "semantic_version \<Rightarrow> bool" where
  "constructed v \<longleftrightarrow>
     SemanticVersion_init (major v) (minor v) (patch v) (prerelease_type v) (prerelease v)
       (dev_count v) (githash v) = Inr v"

text \<open>\<^verbatim>\<open>brief_string\<close>: \<^verbatim>\<open>"%s.%s.%s" % (major, minor, patch)\<close>.\<close>

definition brief_string :: "semantic_version \<Rightarrow> string" where
  "brief_string self =
     str_int (major self) @ ''.'' @ str_int (minor self) @ ''.'' @ str_int (patch self)"

text \<open>\<^verbatim>\<open>decrement\<close>. A Python integer is true in a condition when it is not zero.\<close>

definition decrement :: "semantic_version \<Rightarrow> py_error + semantic_version" where
  "decrement self =
     (let (new_major, new_minor, new_patch) =
            (if patch self \<noteq> 0 then (major self, minor self, patch self - 1)
             else if minor self \<noteq> 0 then (major self, minor self - 1, 9999)
             else if major self \<noteq> 0 then (major self - 1, 9999, 9999)
             else (0, 9999, 9999))
      in SemanticVersion_init new_major new_minor new_patch None None None None)"

text \<open>
  \<^verbatim>\<open>_long_version\<close>. The list \<^verbatim>\<open>segments\<close> holds each element as \<^verbatim>\<open>str\<close> renders it,
  which is what the final \<^verbatim>\<open>"".join(str(s) for s in segments)\<close> does. The argument
  \<^verbatim>\<open>pre_separator\<close> may be \<^verbatim>\<open>None\<close> (the rpm rendering).
\<close>

definition long_version ::
  "semantic_version \<Rightarrow> string option \<Rightarrow> string \<Rightarrow> string \<Rightarrow> py_error + string" where
  "long_version self pre_separator hash_separator rc_marker =
     bind_err
       (if (truthy_str (prerelease_type self) \<or> truthy_int (dev_count self))
            \<and> pre_separator = None
        then bind_err (decrement self) (\<lambda>d. Inr ([brief_string d], Some ''.''))
        else Inr ([brief_string self], pre_separator))
       (\<lambda>(segments, pre_separator).
          let segments =
                (if truthy_str (prerelease_type self)
                 then segments @ [str_opt_str pre_separator @ rc_marker
                        @ str_opt_str (prerelease_type self) @ str_opt_int (prerelease self)]
                 else segments);
              segments =
                (if truthy_int (dev_count self)
                 then (let segments = segments @ [str_opt_str pre_separator, ''dev'',
                                                  str_opt_int (dev_count self)]
                       in if truthy_str (githash self)
                          then segments @ [hash_separator, str_opt_str (githash self)]
                          else segments)
                 else segments)
          in Inr (concat segments))"

definition release_string :: "semantic_version \<Rightarrow> py_error + string" where
  "release_string self = long_version self (Some ''.'') ''.g'' ''0''"

definition debian_string :: "semantic_version \<Rightarrow> py_error + string" where
  "debian_string self = long_version self (Some ''~'') ''+g'' []"

definition rpm_string :: "semantic_version \<Rightarrow> py_error + string" where
  "rpm_string self = long_version self None ''+g'' []"

subsection \<open>Comparison\<close>

text \<open>A value a version may be compared with: another version, or something else.\<close>

datatype py_object = Version semantic_version | PyText string | PyInteger int | PyNone

text \<open>\<^verbatim>\<open>isinstance(other, SemanticVersion)\<close>.\<close>

fun isinstance_SemanticVersion :: "py_object \<Rightarrow> bool" where
  "isinstance_SemanticVersion (Version v) = True"
| "isinstance_SemanticVersion x = False"

text \<open>
  \<^verbatim>\<open>__eq__\<close>: \<^verbatim>\<open>False\<close> for a value that is not a version, otherwise equality of the
  two attribute dictionaries. Both hold the same seven keys, so this is equality of
  the seven attributes. The method has no \<^verbatim>\<open>raise\<close>; its result is given in the same
  type as that of the ordering methods so that the two can be compared.
\<close>

definition sv_eq :: "semantic_version \<Rightarrow> py_object \<Rightarrow> py_error + bool" where
  "sv_eq self other' =
     (case other' of
        Version other \<Rightarrow>
          Inr (major self = major other \<and> minor self = minor other
               \<and> patch self = patch other
               \<and> prerelease_type self = prerelease_type other
               \<and> prerelease self = prerelease other
               \<and> dev_count self = dev_count other \<and> githash self = githash other)
      | _ \<Rightarrow> Inr False)"

text \<open>
  \<^verbatim>\<open><\<close> on two optional values, as used on attributes: defined on two present values,
  \<^verbatim>\<open>TypeError\<close> when \<^verbatim>\<open>None\<close> is involved.
\<close>

fun opt_less :: "'a::ord option \<Rightarrow> 'a option \<Rightarrow> py_error + bool" where
  "opt_less (Some a) (Some b) = Inr (a < b)"
| "opt_less _ _ = Inl TypeError"

text \<open>
  \<^verbatim>\<open><\<close> on the pairs \<^verbatim>\<open>(prerelease_type, prerelease)\<close>: the first component where the
  pairs differ decides; equal pairs are not less.
\<close>

definition pair_less ::
  "string option \<times> int option \<Rightarrow> string option \<times> int option \<Rightarrow> py_error + bool" where
  "pair_less this_tuple other_tuple =
     (if fst this_tuple \<noteq> fst other_tuple then opt_less (fst this_tuple) (fst other_tuple)
      else if snd this_tuple \<noteq> snd other_tuple
           then opt_less (snd this_tuple) (snd other_tuple)
      else Inr False)"

text \<open>\<^verbatim>\<open>__lt__\<close>. The triples of integers are compared lexicographically.\<close>

definition sv_lt :: "semantic_version \<Rightarrow> py_object \<Rightarrow> py_error + bool" where
  "sv_lt self other' =
     (case other' of
        Version other \<Rightarrow>
          (let this_tuple = (major self, minor self, patch self);
               other_tuple = (major other, minor other, patch other)
           in if this_tuple < other_tuple then Inr True
              else if this_tuple > other_tuple then Inr False
              else if truthy_str (prerelease_type self) then
                (if truthy_str (prerelease_type other) then
                   pair_less (prerelease_type self, prerelease self)
                             (prerelease_type other, prerelease other)
                 else if truthy_int (dev_count other) then Inl TypeError
                 else Inr True)
              else if truthy_int (dev_count self) then
                (if truthy_int (dev_count other) then
                   bind_err (opt_less (dev_count self) (dev_count other)) (\<lambda>less.
                     if less then Inr True
                     else bind_err (opt_less (dev_count other) (dev_count self)) (\<lambda>greater.
                       if greater then Inr False
                       else if githash self = githash other then Inr False
                       else Inl TypeError))
                 else if truthy_str (prerelease_type other) then Inl TypeError
                 else Inr True)
              else Inr False)
      | _ \<Rightarrow> Inl TypeError)"

text \<open>
  \<^verbatim>\<open>__le__\<close> is \<^verbatim>\<open>self == other or self < other\<close>, \<^verbatim>\<open>__ge__\<close> is \<^verbatim>\<open>not self < other\<close>,
  \<^verbatim>\<open>__gt__\<close> is \<^verbatim>\<open>not self <= other\<close> and \<^verbatim>\<open>__ne__\<close> is \<^verbatim>\<open>not self == other\<close>.
\<close>

definition sv_le :: "semantic_version \<Rightarrow> py_object \<Rightarrow> py_error + bool" where
  "sv_le self other' =
     bind_err (sv_eq self other') (\<lambda>equal. if equal then Inr True else sv_lt self other')"

definition sv_ge :: "semantic_version \<Rightarrow> py_object \<Rightarrow> py_error + bool" where
  "sv_ge self other' = bind_err (sv_lt self other') (\<lambda>b. Inr (\<not> b))"

definition sv_gt :: "semantic_version \<Rightarrow> py_object \<Rightarrow> py_error + bool" where
  "sv_gt self other' = bind_err (sv_le self other') (\<lambda>b. Inr (\<not> b))"

definition sv_ne :: "semantic_version \<Rightarrow> py_object \<Rightarrow> py_error + bool" where
  "sv_ne self other' = bind_err (sv_eq self other') (\<lambda>b. Inr (\<not> b))"

subsection \<open>Parsing\<close>

text \<open>\<^verbatim>\<open>s.split(d)\<close> for a one-character separator: at least one piece.\<close>

fun split_str :: "char \<Rightarrow> string \<Rightarrow> string list" where
  "split_str d [] = [[]]"
| "split_str d (c # cs) =
     (if c = d then [] # split_str d cs
      else (c # hd (split_str d cs)) # tl (split_str d cs))"

text \<open>
  \<^verbatim>\<open>x[0]\<close> and \<^verbatim>\<open>x[k:]\<close> on an element of \<^verbatim>\<open>remainder\<close>: text is indexed and sliced, an
  integer is not subscriptable.
\<close>

fun item0 :: "py_val \<Rightarrow> py_error + char" where
  "item0 (S []) = Inl IndexError"
| "item0 (S (c # cs)) = Inr c"
| "item0 (I n) = Inl TypeError"

fun slice_from :: "nat \<Rightarrow> py_val \<Rightarrow> py_error + string" where
  "slice_from k (S s) = Inr (drop k s)"
| "slice_from k (I n) = Inl TypeError"

text \<open>The nested function \<^verbatim>\<open>_parse_type\<close>.\<close>

fun parse_type :: "py_val \<Rightarrow> py_error + string \<times> int" where
  "parse_type (I n) = Inl TypeError"
| "parse_type (S s) =
     (let segment = dropWhile isdigit s;
          prerelease_type' = takeWhile isalpha segment;
          prerelease' = drop (length prerelease_type') segment
      in bind_err (py_int (S prerelease')) (\<lambda>n. Inr (prerelease_type', n)))"

text \<open>
  The \<^verbatim>\<open>try\<close> block that sets \<^verbatim>\<open>remainder_starts_with_int\<close>: true when \<^verbatim>\<open>remainder\<close> is
  not empty and \<^verbatim>\<open>int(remainder[0])\<close> is true, that is, succeeds with a value other
  than zero; a \<^verbatim>\<open>ValueError\<close> is swallowed.
\<close>

definition remainder_starts_with_int :: "py_val list \<Rightarrow> bool" where
  "remainder_starts_with_int remainder =
     (case remainder of
        [] \<Rightarrow> False
      | r # rs \<Rightarrow> (case py_int r of Inl e \<Rightarrow> False | Inr n \<Rightarrow> n \<noteq> 0))"

text \<open>\<^verbatim>\<open>from_pip_string\<close>.\<close>

definition from_pip_string :: "string \<Rightarrow> py_error + semantic_version" where
  "from_pip_string version_string =
     (let components = map S (split_str CHR ''.'' version_string);
          components =
            (if length components < 3
             then components @ replicate (3 - length components) (I 0)
             else components)
      in bind_err (py_int (components ! 0)) (\<lambda>major'.
         bind_err (py_int (components ! 1)) (\<lambda>minor'.
         bind_err
           (if is_int (components ! 2)
            then bind_err (py_int (components ! 2)) (\<lambda>n. Inr (n, components))
            else Inr (0, take 2 components @ [I 0] @ drop 2 components))
           (\<lambda>(patch', components).
         let remainder = drop 3 components
         in bind_err
              (if remainder_starts_with_int remainder
               then bind_err (py_int (remainder ! 0)) (\<lambda>n.
                      Inr (None, None, Some n, remainder))
               else
                 bind_err
                   (if remainder = [] then Inr False
                    else bind_err (item0 (remainder ! 0)) (\<lambda>c.
                           Inr (c = CHR ''0'' \<or> [c] \<in> set [''a'', ''b'', ''rc''])))
                   (\<lambda>current_layout.
                 bind_err
                   (if current_layout
                    then bind_err (parse_type (remainder ! 0)) (\<lambda>(t, n).
                           Inr (Some t, Some n, drop 1 remainder))
                    else Inr (None, None, remainder))
                   (\<lambda>(prerelease_type', prerelease', remainder).
                 bind_err
                   (if remainder \<noteq> []
                    then bind_err (slice_from 3 (remainder ! 0)) (\<lambda>s.
                         bind_err (py_int (S s)) (\<lambda>n. Inr (Some n)))
                    else Inr None)
                   (\<lambda>dev_count'.
                 Inr (prerelease_type', prerelease', dev_count', remainder)))))
              (\<lambda>(prerelease_type', prerelease', dev_count', remainder).
         bind_err
           (if length remainder > 1
            then bind_err (slice_from 1 (remainder ! 1)) (\<lambda>h. Inr (Some h))
            else Inr None)
           (\<lambda>githash'.
         SemanticVersion_init major' minor' patch' prerelease_type' prerelease'
           dev_count' githash'))))))"

text \<open>
  The versions whose canonical rendering keeps every attribute apart. Excluded are the
  values that \<^verbatim>\<open>release_string\<close> drops or runs together: a prerelease type that is
  empty or holds a character other than a letter (the serial is appended to it without a
  separator), a serial without a type, a dev count of 0 (not rendered), a hash without a
  dev count (not rendered), and a hash that is empty or holds the separator \<^verbatim>\<open>.\<close>.
\<close>

definition canonical_unambiguous :: "semantic_version \<Rightarrow> bool" where
  "canonical_unambiguous v \<longleftrightarrow>
     (case prerelease_type v of
        Some t \<Rightarrow>
          t \<noteq> [] \<and> list_all isalpha t \<and> prerelease v \<noteq> None
          \<and> dev_count v = None \<and> githash v = None
      | None \<Rightarrow>
          prerelease v = None
          \<and> (case dev_count v of
                Some d \<Rightarrow>
                  d \<noteq> 0
                  \<and> (case githash v of
                        Some h \<Rightarrow> h \<noteq> [] \<and> CHR ''.'' \<notin> set h
                      | None \<Rightarrow> True)
              | None \<Rightarrow> githash v = None))"

section \<open>Auxiliary facts\<close>

subsection \<open>Decimal digits\<close>

lemma digit_char_cases:
  "d < 10 \<Longrightarrow> digit_char d \<in> set ''0123456789'' \<and> digit_val (digit_char d) = d"
proof -
  assume "d < 10"
  then have "d \<in> {0, 1, 2, 3, 4, 5, 6, 7, 8, 9}" by auto
  then show ?thesis
    by (auto simp: digit_char_def digit_val_def)
qed

lemma isdigit_digit_char: "d < 10 \<Longrightarrow> isdigit (digit_char d)"
  using digit_char_cases [of d] by (simp add: isdigit_def)

lemma digit_val_digit_char: "d < 10 \<Longrightarrow> digit_val (digit_char d) = d"
  using digit_char_cases [of d] by simp

lemma isdigit_not_others:
  "isdigit c \<Longrightarrow> \<not> isspace c \<and> \<not> isalpha c \<and> c \<noteq> CHR ''.'' \<and> c \<noteq> CHR ''_''
     \<and> c \<noteq> CHR ''-'' \<and> c \<noteq> CHR ''+''"
  by (auto simp: isdigit_def isspace_def isalpha_def)

lemma isalpha_not_others:
  "isalpha c \<Longrightarrow> \<not> isspace c \<and> \<not> isdigit c \<and> c \<noteq> CHR ''.'' \<and> c \<noteq> CHR ''_''
     \<and> c \<noteq> CHR ''-'' \<and> c \<noteq> CHR ''+''"
  by (auto simp: isdigit_def isspace_def isalpha_def)

lemma str_nat_digits: "str_nat n \<noteq> [] \<and> list_all isdigit (str_nat n)"
proof (induction n rule: str_nat.induct)
  case (1 n)
  show ?case
  proof (cases "n < 10")
    case True
    then show ?thesis
      by (subst (1 2) str_nat.simps) (simp add: isdigit_digit_char)
  next
    case False
    then have "list_all isdigit (str_nat (n div 10))" using 1 by simp
    moreover have "isdigit (digit_char (n mod 10))" by (simp add: isdigit_digit_char)
    ultimately show ?thesis
      using False by (subst (1 2) str_nat.simps) simp
  qed
qed

lemma digits_val_snoc: "digits_val acc (ds @ [c]) = 10 * digits_val acc ds + digit_val c"
  by (induction ds arbitrary: acc) simp_all

lemma digits_val_str_nat: "digits_val 0 (str_nat n) = n"
proof (induction n rule: str_nat.induct)
  case (1 n)
  show ?case
  proof (cases "n < 10")
    case True
    then show ?thesis
      by (subst str_nat.simps) (simp add: digit_val_digit_char)
  next
    case False
    then have "digits_val 0 (str_nat (n div 10)) = n div 10" using 1 by simp
    then show ?thesis
      using False by (subst str_nat.simps) (simp add: digits_val_snoc digit_val_digit_char)
  qed
qed

lemma int_body_digits: "ds \<noteq> [] \<Longrightarrow> list_all isdigit ds \<Longrightarrow> int_body ds"
  by (induction ds rule: int_body.induct) (auto dest: isdigit_not_others)

lemma filter_digits: "list_all isdigit ds \<Longrightarrow> filter (\<lambda>c. c \<noteq> CHR ''_'') ds = ds"
  by (induction ds) (auto dest: isdigit_not_others)

lemma parse_body_str_nat: "parse_body (str_nat n) = Some n"
  using str_nat_digits [of n]
  by (simp add: parse_body_def int_body_digits filter_digits digits_val_str_nat)

lemma int_body_chars: "int_body ds \<Longrightarrow> \<forall>c \<in> set ds. isdigit c \<or> c = CHR ''_''"
proof (induction ds rule: int_body.induct)
  case 1
  then show ?case by simp
next
  case (2 c)
  then show ?case by simp
next
  case (3 c d cs)
  have c: "isdigit c"
    using "3.prems" by simp
  show ?case
  proof (cases "d = CHR ''_''")
    case True
    then have "int_body cs" using "3.prems" by simp
    with True have "\<forall>x \<in> set cs. isdigit x \<or> x = CHR ''_''"
      by (rule "3.IH"(1))
    then show ?thesis using c True by simp
  next
    case False
    then have "int_body (d # cs)" using "3.prems" by simp
    with False have "\<forall>x \<in> set (d # cs). isdigit x \<or> x = CHR ''_''"
      by (rule "3.IH"(2))
    then show ?thesis using c by simp
  qed
qed

subsection \<open>\<^verbatim>\<open>int\<close> after \<^verbatim>\<open>str\<close>, and \<^verbatim>\<open>int\<close> of text with a letter\<close>

lemma strip_no_space: "\<forall>c \<in> set s. \<not> isspace c \<Longrightarrow> strip s = s"
proof (cases s)
  case Nil
  then show ?thesis by (simp add: strip_def)
next
  case (Cons c cs)
  assume ns: "\<forall>c \<in> set s. \<not> isspace c"
  then have a: "dropWhile isspace s = s"
    using Cons by simp
  have "rev s \<noteq> []"
    using Cons by simp
  then have "hd (rev s) \<in> set (rev s)"
    by (rule hd_in_set)
  then have "rev s \<noteq> []" and "hd (rev s) \<in> set s"
    using Cons by simp_all
  then have "dropWhile isspace (rev s) = rev s"
    using ns by (cases "rev s") auto
  then show ?thesis
    using a by (simp add: strip_def)
qed

lemma str_int_chars: "\<forall>c \<in> set (str_int n). isdigit c \<or> c = CHR ''-''"
  using str_nat_digits by (auto simp: str_int_def list_all_iff)

lemma str_int_not_Nil: "str_int n \<noteq> []"
  using str_nat_digits by (simp add: str_int_def)

lemma minus_not_others:
  "\<not> isspace CHR ''-'' \<and> \<not> isalpha CHR ''-'' \<and> CHR ''-'' \<noteq> CHR ''.''"
  by (simp add: isspace_def isalpha_def)

lemma str_int_char_class:
  assumes "c \<in> set (str_int n)"
  shows "\<not> isspace c \<and> \<not> isalpha c \<and> c \<noteq> CHR ''.''"
proof -
  have "isdigit c \<or> c = CHR ''-''"
    using assms str_int_chars by blast
  then show ?thesis
  proof
    assume "isdigit c"
    then show ?thesis using isdigit_not_others [of c] by simp
  next
    assume "c = CHR ''-''"
    then show ?thesis using minus_not_others by simp
  qed
qed

lemma str_int_no_space: "\<forall>c \<in> set (str_int n). \<not> isspace c"
  using str_int_char_class by blast

lemma str_int_no_dot: "CHR ''.'' \<notin> set (str_int n)"
  using str_int_char_class by blast

lemma hd_str_int_not_alpha: "\<not> isalpha (hd (str_int n))"
proof -
  have "hd (str_int n) \<in> set (str_int n)"
    using str_int_not_Nil by simp
  then show ?thesis
    using str_int_char_class by blast
qed

lemma int_of_str_str_int: "int_of_str (str_int n) = Some n"
proof (cases "n < 0")
  case True
  have "strip (str_int n) = CHR ''-'' # str_nat (nat (- n))"
    using strip_no_space [OF str_int_no_space, of n] True by (simp add: str_int_def)
  then show ?thesis
    using True by (simp add: int_of_str_def parse_body_str_nat)
next
  case False
  obtain c cs where s: "str_nat (nat n) = c # cs"
    using str_nat_digits [of "nat n"] by (cases "str_nat (nat n)") auto
  then have "isdigit c"
    using str_nat_digits [of "nat n"] by simp
  then have c: "c \<noteq> CHR ''-''" "c \<noteq> CHR ''+''"
    using isdigit_not_others by auto
  have "strip (str_int n) = c # cs"
    using strip_no_space [OF str_int_no_space, of n] False s by (simp add: str_int_def)
  moreover have "parse_body (c # cs) = Some (nat n)"
    using parse_body_str_nat [of "nat n"] s by simp
  ultimately show ?thesis
    using False c by (simp add: int_of_str_def)
qed

lemma int_of_str_letter:
  assumes "s = c # cs" and "c \<noteq> CHR ''-''" and "c \<noteq> CHR ''+''"
    and "\<forall>x \<in> set s. \<not> isspace x"
    and "x \<in> set s" and "isalpha x"
  shows "int_of_str s = None"
proof -
  have "strip s = c # cs"
    using strip_no_space [OF assms(4)] assms(1) by simp
  moreover have "\<not> int_body (c # cs)"
  proof
    assume "int_body (c # cs)"
    then have "isdigit x \<or> x = CHR ''_''"
      using int_body_chars [of s] assms(1,5) by blast
    then show False
      using isalpha_not_others [OF assms(6)] by blast
  qed
  ultimately show ?thesis
    using assms(2,3) by (simp add: int_of_str_def parse_body_def)
qed

subsection \<open>Splitting a rendered version\<close>

lemma split_str_no_sep: "d \<notin> set a \<Longrightarrow> split_str d a = [a]"
  by (induction a) auto

lemma split_str_append: "d \<notin> set a \<Longrightarrow> split_str d (a @ d # b) = a # split_str d b"
  by (induction a) auto

subsection \<open>Instances and comparison\<close>

lemma constructed_iff:
  "constructed v \<longleftrightarrow>
     \<not> (prerelease_type v \<noteq> None \<and> dev_count v \<noteq> None)
     \<and> (truthy_str (prerelease_type v) \<longrightarrow> prerelease v \<noteq> None)"
  by (cases v; cases "prerelease v")
    (auto simp: constructed_def SemanticVersion_init_def Let_def)

lemma lt_final_like:
  assumes "\<not> truthy_str (prerelease_type v)" and "\<not> truthy_int (dev_count v)"
    and "major w = major v" and "minor w = minor v" and "patch w = patch v"
    and "truthy_str (prerelease_type w) \<or> truthy_int (dev_count w)"
  shows "sv_lt w (Version v) = Inr True" and "sv_lt v (Version w) = Inr False"
  using assms by (auto simp: sv_lt_def)

lemma lt_both_final:
  assumes "\<not> truthy_str (prerelease_type v)" and "\<not> truthy_int (dev_count v)"
    and "major w = major v" and "minor w = minor v" and "patch w = patch v"
    and "\<not> truthy_str (prerelease_type w)" and "\<not> truthy_int (dev_count w)"
  shows "sv_lt w (Version v) = Inr False"
  using assms by (simp add: sv_lt_def)

lemma eq_versions: "sv_eq v (Version w) = Inr (v = w)"
  by (cases v; cases w) (auto simp: sv_eq_def)

lemma le_of_lt:
  "v \<noteq> w \<Longrightarrow> sv_le v (Version w) = sv_lt v (Version w)
     \<and> sv_le w (Version v) = sv_lt w (Version v)"
  by (auto simp: sv_le_def eq_versions)

lemma lt_non_version: "\<not> isinstance_SemanticVersion x \<Longrightarrow> sv_lt v x = Inl TypeError"
  by (cases x) (simp_all add: sv_lt_def)

lemma eq_non_version: "\<not> isinstance_SemanticVersion x \<Longrightarrow> sv_eq v x = Inr False"
  by (cases x) (simp_all add: sv_eq_def)

subsection \<open>Parsing a canonical rendering\<close>

lemma split_triple:
  "split_str CHR ''.'' (str_int M @ ''.'' @ str_int m @ ''.'' @ str_int p)
     = [str_int M, str_int m, str_int p]"
  using split_str_append [OF str_int_no_dot] split_str_no_sep [OF str_int_no_dot]
  by simp

lemma split_triple_more:
  "split_str CHR ''.'' (str_int M @ ''.'' @ str_int m @ ''.'' @ str_int p @ ''.'' @ r)
     = str_int M # str_int m # str_int p # split_str CHR ''.'' r"
  using split_str_append [OF str_int_no_dot]
  by simp

lemma from_pip_final:
  assumes "split_str CHR ''.'' s = [str_int M, str_int m, str_int p]"
  shows "from_pip_string s =
           Inr \<lparr>major = M, minor = m, patch = p, prerelease_type = None, prerelease = None,
                dev_count = None, githash = None\<rparr>"
  by (simp add: from_pip_string_def assms int_of_str_str_int remainder_starts_with_int_def
      SemanticVersion_init_def)

lemma int_of_str_qualifier_pre:
  assumes "t \<noteq> []" and "list_all isalpha t"
  shows "int_of_str (CHR ''0'' # t @ str_int k) = None"
proof (rule int_of_str_letter [where x = "hd t"])
  show "CHR ''0'' # t @ str_int k = CHR ''0'' # (t @ str_int k)" by simp
  show "CHR ''0'' \<noteq> CHR ''-''" and "CHR ''0'' \<noteq> CHR ''+''" by simp_all
  show "hd t \<in> set (CHR ''0'' # t @ str_int k)" using assms(1) by simp
  show "isalpha (hd t)" using assms by (cases t) simp_all
  show "\<forall>x \<in> set (CHR ''0'' # t @ str_int k). \<not> isspace x"
  proof
    fix x assume "x \<in> set (CHR ''0'' # t @ str_int k)"
    then consider "x = CHR ''0''" | "x \<in> set t" | "x \<in> set (str_int k)" by auto
    then show "\<not> isspace x"
    proof cases
      case 1
      then show ?thesis by (simp add: isspace_def)
    next
      case 2
      then have "isalpha x" using assms(2) by (simp add: list_all_iff)
      then show ?thesis using isalpha_not_others by blast
    next
      case 3
      then show ?thesis using str_int_char_class by blast
    qed
  qed
qed

lemma int_of_str_qualifier_dev: "int_of_str (''dev'' @ str_int d) = None"
proof (rule int_of_str_letter [where x = "CHR ''d''"])
  show "''dev'' @ str_int d = CHR ''d'' # (''ev'' @ str_int d)" by simp
  show "CHR ''d'' \<noteq> CHR ''-''" and "CHR ''d'' \<noteq> CHR ''+''" by simp_all
  show "CHR ''d'' \<in> set (''dev'' @ str_int d)" by simp
  show "isalpha CHR ''d''" by (simp add: isalpha_def)
  show "\<forall>x \<in> set (''dev'' @ str_int d). \<not> isspace x"
  proof
    fix x assume "x \<in> set (''dev'' @ str_int d)"
    then consider "x \<in> set ''dev''" | "x \<in> set (str_int d)" by auto
    then show "\<not> isspace x"
    proof cases
      case 1
      then show ?thesis by (auto simp: isspace_def)
    next
      case 2
      then show ?thesis using str_int_char_class by blast
    qed
  qed
qed

lemma parse_type_qualifier:
  assumes "t \<noteq> []" and "list_all isalpha t"
  shows "parse_type (S (CHR ''0'' # t @ str_int k)) = Inr (t, k)"
proof -
  obtain a t' where t: "t = a # t'"
    using assms(1) by (cases t) auto
  then have "isalpha a" using assms(2) by simp
  then have "\<not> isdigit a" using isalpha_not_others by blast
  moreover have "isdigit CHR ''0''" by (simp add: isdigit_def)
  ultimately have d: "dropWhile isdigit (CHR ''0'' # t @ str_int k) = t @ str_int k"
    using t by simp
  have "takeWhile isalpha (str_int k) = []"
    using hd_str_int_not_alpha [of k] str_int_not_Nil [of k] by (cases "str_int k") simp_all
  moreover have "\<And>x. x \<in> set t \<Longrightarrow> isalpha x"
    using assms(2) by (simp add: list_all_iff)
  ultimately have tk: "takeWhile isalpha (t @ str_int k) = t"
    by (simp add: takeWhile_append2)
  have "parse_type (S (CHR ''0'' # t @ str_int k))
          = bind_err (py_int (S (str_int k))) (\<lambda>n. Inr (t, n))"
    by (simp only: parse_type.simps d tk Let_def append_eq_conv_conj drop_append
        length_drop diff_self_eq_0 drop_0 drop_all order_refl) simp
  then show ?thesis
    by (simp add: int_of_str_str_int)
qed

lemma from_pip_pre:
  assumes "split_str CHR ''.'' s
             = [str_int M, str_int m, str_int p, CHR ''0'' # t @ str_int k]"
    and "t \<noteq> []" and "list_all isalpha t"
  shows "from_pip_string s =
           Inr \<lparr>major = M, minor = m, patch = p, prerelease_type = Some t,
                prerelease = Some k, dev_count = None, githash = None\<rparr>"
proof -
  have n: "int_of_str (CHR ''0'' # t @ str_int k) = None"
    using assms(2,3) by (rule int_of_str_qualifier_pre)
  have q: "parse_type (S (CHR ''0'' # t @ str_int k)) = Inr (t, k)"
    using assms(2,3) by (rule parse_type_qualifier)
  show ?thesis
    unfolding from_pip_string_def assms(1)
    by (simp add: n q assms(2) int_of_str_str_int remainder_starts_with_int_def
        SemanticVersion_init_def del: parse_type.simps)
qed

lemma from_pip_dev:
  assumes "split_str CHR ''.'' s = [str_int M, str_int m, str_int p, ''dev'' @ str_int d]"
  shows "from_pip_string s =
           Inr \<lparr>major = M, minor = m, patch = p, prerelease_type = None,
                prerelease = None, dev_count = Some d, githash = None\<rparr>"
  unfolding from_pip_string_def assms
  using int_of_str_qualifier_dev [of d]
  by (simp add: int_of_str_str_int remainder_starts_with_int_def SemanticVersion_init_def)

lemma from_pip_dev_hash:
  assumes "split_str CHR ''.'' s
             = str_int M # str_int m # str_int p # (''dev'' @ str_int d) # (CHR ''g'' # h)
               # rest"
  shows "from_pip_string s =
           Inr \<lparr>major = M, minor = m, patch = p, prerelease_type = None,
                prerelease = None, dev_count = Some d, githash = Some h\<rparr>"
  unfolding from_pip_string_def assms
  using int_of_str_qualifier_dev [of d]
  by (simp add: int_of_str_str_int remainder_starts_with_int_def SemanticVersion_init_def)

text \<open>
  The legacy layout with a dev counter other than 0: whatever text \<^verbatim>\<open>int\<close> accepts in the
  first four places, the fourth becomes the dev count and the fifth, less its first
  character, the hash.
\<close>

lemma from_pip_legacy_nonzero:
  assumes "split_str CHR ''.'' s = [a, b, c, x, y]"
    and "int_of_str a = Some M" and "int_of_str b = Some m" and "int_of_str c = Some p"
    and "int_of_str x = Some n" and "n \<noteq> 0"
  shows "from_pip_string s =
           Inr \<lparr>major = M, minor = m, patch = p, prerelease_type = None,
                prerelease = None, dev_count = Some n, githash = Some (drop 1 y)\<rparr>"
  unfolding from_pip_string_def assms(1)
  by (simp add: assms(2-) remainder_starts_with_int_def SemanticVersion_init_def)

subsection \<open>What the parser can return\<close>

lemma bind_err_Inr: "bind_err m f = Inr y \<longleftrightarrow> (\<exists>x. m = Inr x \<and> f x = Inr y)"
  by (cases m) auto

lemma parse_type_alpha: "parse_type x = Inr (t, n) \<Longrightarrow> list_all isalpha t"
  by (cases x) (auto simp: bind_err_Inr Let_def list_all_iff dest: set_takeWhileD)

lemma split_str_not_Nil: "split_str d s \<noteq> []"
  by (cases s) simp_all

lemma from_pip_type_alpha:
  assumes "from_pip_string s = Inr w" and "prerelease_type w = Some t"
  shows "list_all isalpha t"
  using assms unfolding from_pip_string_def Let_def
  by (auto simp: bind_err_Inr SemanticVersion_init_def split: if_splits
      dest: parse_type_alpha simp del: parse_type.simps)

lemma from_pip_serial_needs_type:
  assumes "from_pip_string s = Inr w" and "prerelease_type w = None"
  shows "prerelease w = None"
  using assms unfolding from_pip_string_def Let_def
  by (auto simp: bind_err_Inr SemanticVersion_init_def split: if_splits
      simp del: parse_type.simps)

text \<open>
  The condition \<open>canonical_unambiguous\<close> excludes no instance needlessly: an instance
  that comes back from rendering and parsing satisfies it.
\<close>

lemma round_trip_only_unambiguous:
  assumes "constructed v" and "release_string v = Inr s" and "from_pip_string s = Inr v"
  shows "canonical_unambiguous v"
proof -
  obtain M m p pt pr dc gh where v:
    "v = \<lparr>major = M, minor = m, patch = p, prerelease_type = pt, prerelease = pr,
          dev_count = dc, githash = gh\<rparr>"
    by (cases v) auto
  have c: "\<not> (pt \<noteq> None \<and> dc \<noteq> None)" "truthy_str pt \<longrightarrow> pr \<noteq> None"
    using assms(1) by (simp_all add: constructed_iff v)
  have brief: "from_pip_string (str_int M @ ''.'' @ str_int m @ ''.'' @ str_int p)
                 = Inr \<lparr>major = M, minor = m, patch = p, prerelease_type = None,
                        prerelease = None, dev_count = None, githash = None\<rparr>"
    using from_pip_final [OF split_triple] .
  show ?thesis
  proof (cases pt)
    case (Some t)
    then have dc: "dc = None" using c(1) by simp
    have alpha: "list_all isalpha t"
      using from_pip_type_alpha [OF assms(3)] by (simp add: v Some)
    have t: "t \<noteq> []"
    proof
      assume "t = []"
      then have "release_string v = Inr (str_int M @ ''.'' @ str_int m @ ''.'' @ str_int p)"
        by (simp add: v Some dc release_string_def long_version_def brief_string_def)
      then show False
        using assms(2,3) brief by (simp add: v Some)
    qed
    then obtain k where k: "pr = Some k"
      using c(2) Some by auto
    have "release_string v
            = Inr (str_int M @ ''.'' @ str_int m @ ''.'' @ str_int p @ ''.''
                   @ CHR ''0'' # t @ str_int k)"
      by (simp add: v Some dc k t release_string_def long_version_def brief_string_def)
    moreover have "CHR ''.'' \<notin> set (CHR ''0'' # t @ str_int k)"
      using alpha isalpha_not_others str_int_no_dot [of k] by (auto simp: list_all_iff)
    then have "split_str CHR ''.'' (CHR ''0'' # t @ str_int k) = [CHR ''0'' # t @ str_int k]"
      by (rule split_str_no_sep)
    then have "split_str CHR ''.'' (str_int M @ ''.'' @ str_int m @ ''.'' @ str_int p @ ''.''
                   @ CHR ''0'' # t @ str_int k)
               = [str_int M, str_int m, str_int p, CHR ''0'' # t @ str_int k]"
      by (simp only: split_triple_more)
    then have "from_pip_string (str_int M @ ''.'' @ str_int m @ ''.'' @ str_int p @ ''.''
                   @ CHR ''0'' # t @ str_int k)
               = Inr \<lparr>major = M, minor = m, patch = p, prerelease_type = Some t,
                      prerelease = Some k, dev_count = None, githash = None\<rparr>"
      using from_pip_pre [OF _ t alpha] by simp
    ultimately have "gh = None"
      using assms(2,3) by (simp add: v)
    then show ?thesis
      by (simp add: canonical_unambiguous_def v Some t alpha k dc)
  next
    case None
    have pr: "pr = None"
      using from_pip_serial_needs_type [OF assms(3)] by (simp add: v None)
    show ?thesis
    proof (cases "truthy_int dc")
      case False
      then have "release_string v = Inr (str_int M @ ''.'' @ str_int m @ ''.'' @ str_int p)"
        by (simp add: v None release_string_def long_version_def brief_string_def)
      then have "dc = None \<and> gh = None"
        using assms(2,3) brief by (simp add: v)
      then show ?thesis
        by (simp add: canonical_unambiguous_def v None pr)
    next
      case True
      then obtain d where d: "dc = Some d" "d \<noteq> 0"
        by (cases dc) auto
      have dot_dev: "CHR ''.'' \<notin> set (''dev'' @ str_int d)"
        using str_int_no_dot [of d] by simp
      show ?thesis
      proof (cases "truthy_str gh")
        case False
        then have "release_string v
                = Inr (str_int M @ ''.'' @ str_int m @ ''.'' @ str_int p @ ''.''
                       @ ''dev'' @ str_int d)"
          by (simp add: v None d release_string_def long_version_def brief_string_def)
        moreover have "split_str CHR ''.'' (''dev'' @ str_int d) = [''dev'' @ str_int d]"
          using dot_dev by (rule split_str_no_sep)
        then have "split_str CHR ''.'' (str_int M @ ''.'' @ str_int m @ ''.'' @ str_int p
                         @ ''.'' @ ''dev'' @ str_int d)
                       = [str_int M, str_int m, str_int p, ''dev'' @ str_int d]"
          by (simp only: split_triple_more)
        then have "from_pip_string (str_int M @ ''.'' @ str_int m @ ''.'' @ str_int p
                         @ ''.'' @ ''dev'' @ str_int d)
                   = Inr \<lparr>major = M, minor = m, patch = p, prerelease_type = None,
                          prerelease = None, dev_count = Some d, githash = None\<rparr>"
          by (rule from_pip_dev)
        ultimately have "gh = None"
          using assms(2,3) by (simp add: v)
        then show ?thesis
          by (simp add: canonical_unambiguous_def v None pr d)
      next
        case True
        then obtain h where h: "gh = Some h" "h \<noteq> []"
          by (cases gh) auto
        have rel: "release_string v
                = Inr (str_int M @ ''.'' @ str_int m @ ''.'' @ str_int p @ ''.''
                       @ (''dev'' @ str_int d) @ ''.'' @ CHR ''g'' # h)"
          by (simp add: v None d h release_string_def long_version_def brief_string_def)
        have "CHR ''.'' \<notin> set h"
        proof
          assume "CHR ''.'' \<in> set h"
          then obtain h1 h2 where s: "h = h1 @ CHR ''.'' # h2" "CHR ''.'' \<notin> set h1"
            by (auto dest: split_list_first)
          have "split_str CHR ''.'' (CHR ''g'' # h) = (CHR ''g'' # h1) # split_str CHR ''.'' h2"
            using split_str_append [of "CHR ''.''" "CHR ''g'' # h1" h2] s by simp
          moreover obtain y ys where "split_str CHR ''.'' h2 = y # ys"
            using split_str_not_Nil [of "CHR ''.''" h2]
            by (cases "split_str CHR ''.'' h2") auto
          ultimately have "split_str CHR ''.'' ((''dev'' @ str_int d) @ ''.'' @ CHR ''g'' # h)
                  = (''dev'' @ str_int d) # (CHR ''g'' # h1) # y # ys"
            using split_str_append [OF dot_dev, of "CHR ''g'' # h"] by simp
          then have "split_str CHR ''.'' (str_int M @ ''.'' @ str_int m @ ''.'' @ str_int p
                         @ ''.'' @ (''dev'' @ str_int d) @ ''.'' @ CHR ''g'' # h)
                  = str_int M # str_int m # str_int p # (''dev'' @ str_int d)
                    # (CHR ''g'' # h1) # y # ys"
            by (simp only: split_triple_more)
          then have "from_pip_string (str_int M @ ''.'' @ str_int m @ ''.'' @ str_int p
                         @ ''.'' @ (''dev'' @ str_int d) @ ''.'' @ CHR ''g'' # h)
                  = Inr \<lparr>major = M, minor = m, patch = p, prerelease_type = None,
                         prerelease = None, dev_count = Some d, githash = Some h1\<rparr>"
            by (rule from_pip_dev_hash)
          then have "h1 = h"
            using assms(2,3) rel by (simp add: v h)
          then show False
            using s by simp
        qed
        then show ?thesis
          by (simp add: canonical_unambiguous_def v None pr d h)
      qed
    qed
  qed
qed

section \<open>Construction\<close>

text \<open>
  Claim C2. Construction raises the invalid-version error (\<^verbatim>\<open>ValueError\<close> in the code)
  exactly when both the prerelease type and the dev count are supplied, that is, are
  not \<^verbatim>\<open>None\<close>. Every other combination of arguments yields a version, also a
  prerelease type together with a hash and no dev count. When the prerelease type is
  one of the type texts (any non-empty text) and the serial is omitted, the version
  constructed has serial 0.
\<close>

theorem init_raises_iff_type_and_dev:
  "(SemanticVersion_init M m p pt pr dc gh = Inl ValueError
      \<longleftrightarrow> pt \<noteq> None \<and> dc \<noteq> None)
   \<and> ((\<exists>v. SemanticVersion_init M m p pt pr dc gh = Inr v)
      \<longleftrightarrow> \<not> (pt \<noteq> None \<and> dc \<noteq> None))
   \<and> (t \<noteq> [] \<longrightarrow>
        (\<exists>v. SemanticVersion_init M m p (Some t) None None gh = Inr v
           \<and> prerelease_type v = Some t \<and> prerelease v = Some 0
           \<and> dev_count v = None \<and> githash v = gh))"
  by (simp add: SemanticVersion_init_def)

theorem init_raises_iff_type_and_dev_witness:
  "SemanticVersion_init 1 3 0 (Some ''a'') None None (Some ''83bef74'')
     = Inr \<lparr>major = 1, minor = 3, patch = 0, prerelease_type = Some ''a'',
            prerelease = Some 0, dev_count = None, githash = Some ''83bef74''\<rparr>
   \<and> SemanticVersion_init 1 3 0 (Some ''a'') (Some 1) (Some 2) None = Inl ValueError"
  using init_raises_iff_type_and_dev
    [of 1 3 0 "Some ''a''" "Some 1" "Some 2" None "''a''"]
    init_raises_iff_type_and_dev
    [of 1 3 0 "Some ''a''" None None "Some ''83bef74''" "''a''"]
  by (simp add: SemanticVersion_init_def)

section \<open>Arithmetic\<close>

text \<open>
  Claim C8. For every version (its three numbers are non-negative integers),
  \<^verbatim>\<open>decrement\<close> returns a version without qualifiers whose numbers are: patch - 1 if
  patch > 0; otherwise patch 9999 and minor - 1 if minor > 0; otherwise minor 9999 and
  major - 1 if major > 0, and major 0 otherwise.
\<close>

theorem decrement_borrows:
  assumes "0 \<le> major v" and "0 \<le> minor v" and "0 \<le> patch v"
  shows "decrement v =
           Inr \<lparr>major = (if 0 < patch v \<or> 0 < minor v then major v
                          else if 0 < major v then major v - 1 else 0),
                minor = (if 0 < patch v then minor v
                          else if 0 < minor v then minor v - 1 else 9999),
                patch = (if 0 < patch v then patch v - 1 else 9999),
                prerelease_type = None, prerelease = None,
                dev_count = None, githash = None\<rparr>"
  using assms by (simp add: decrement_def SemanticVersion_init_def)

theorem decrement_borrows_witness:
  "decrement \<lparr>major = 1, minor = 2, patch = 0, prerelease_type = Some ''a'',
              prerelease = Some 1, dev_count = None, githash = None\<rparr>
     = Inr \<lparr>major = 1, minor = 1, patch = 9999, prerelease_type = None,
            prerelease = None, dev_count = None, githash = None\<rparr>
   \<and> decrement \<lparr>major = 1, minor = 0, patch = 0, prerelease_type = None,
                prerelease = None, dev_count = Some 3, githash = Some ''83bef74''\<rparr>
     = Inr \<lparr>major = 0, minor = 9999, patch = 9999, prerelease_type = None,
            prerelease = None, dev_count = None, githash = None\<rparr>"
  using decrement_borrows
    [of "\<lparr>major = 1, minor = 2, patch = 0, prerelease_type = Some ''a'',
          prerelease = Some 1, dev_count = None, githash = None\<rparr>"]
    decrement_borrows
    [of "\<lparr>major = 1, minor = 0, patch = 0, prerelease_type = None,
          prerelease = None, dev_count = Some 3, githash = Some ''83bef74''\<rparr>"]
  by simp

section \<open>Comparison\<close>

text \<open>
  Claim C9, as the code has it. For every version and every value that is not a
  version, the ordering comparisons \<^verbatim>\<open><\<close>, \<^verbatim>\<open><=\<close>, \<^verbatim>\<open>>\<close> and \<^verbatim>\<open>>=\<close> fail with a type
  error, while \<^verbatim>\<open>==\<close> does not fail: it returns \<^verbatim>\<open>False\<close> (and \<^verbatim>\<open>!=\<close> returns
  \<^verbatim>\<open>True\<close>). Equality of two versions is equality of all seven attributes.
\<close>

theorem non_version_comparison:
  "(\<not> isinstance_SemanticVersion x \<longrightarrow>
      sv_lt v x = Inl TypeError \<and> sv_le v x = Inl TypeError
      \<and> sv_gt v x = Inl TypeError \<and> sv_ge v x = Inl TypeError
      \<and> sv_eq v x = Inr False \<and> sv_ne v x = Inr True)
   \<and> sv_eq v (Version w) = Inr (v = w)"
  by (simp add: sv_le_def sv_gt_def sv_ge_def sv_ne_def lt_non_version eq_non_version
      eq_versions)

theorem non_version_comparison_witness:
  "\<not> isinstance_SemanticVersion (PyText ''1.0.0'')
   \<and> sv_lt \<lparr>major = 1, minor = 0, patch = 0, prerelease_type = None, prerelease = None,
             dev_count = None, githash = None\<rparr> (PyText ''1.0.0'') = Inl TypeError
   \<and> sv_ge \<lparr>major = 1, minor = 0, patch = 0, prerelease_type = None, prerelease = None,
             dev_count = None, githash = None\<rparr> (PyText ''1.0.0'') = Inl TypeError
   \<and> sv_ne \<lparr>major = 1, minor = 0, patch = 0, prerelease_type = None, prerelease = None,
             dev_count = None, githash = None\<rparr> (PyText ''1.0.0'') = Inr True"
  using non_version_comparison
    [of "PyText ''1.0.0''"
        "\<lparr>major = 1, minor = 0, patch = 0, prerelease_type = None, prerelease = None,
          dev_count = None, githash = None\<rparr>"]
  by simp

text \<open>
  Claim C9 as stated fails for equality: comparing the version 1.0.0 with the text
  \<^verbatim>\<open>"1.0.0"\<close> by \<^verbatim>\<open>==\<close> returns \<^verbatim>\<open>False\<close>; no type error is raised.
\<close>

theorem eq_non_version_counterexample:
  "sv_eq \<lparr>major = 1, minor = 0, patch = 0, prerelease_type = None, prerelease = None,
          dev_count = None, githash = None\<rparr> (PyText ''1.0.0'') = Inr False
   \<and> sv_eq \<lparr>major = 1, minor = 0, patch = 0, prerelease_type = None, prerelease = None,
          dev_count = None, githash = None\<rparr> (PyText ''1.0.0'') \<noteq> Inl TypeError"
  by (simp add: sv_eq_def)

text \<open>
  Claim C3, as the code has it. Take two versions with the same (major, minor, patch).
  \<^verbatim>\<open>__lt__\<close> tells a prerelease by the truth value of the prerelease type and a dev
  build by the truth value of the dev count, so a dev count of 0 does not count.
  Comparing a prerelease with a dev build whose dev count is not 0 fails, in both
  directions and for each of \<^verbatim>\<open><\<close>, \<^verbatim>\<open><=\<close>, \<^verbatim>\<open>>\<close>, \<^verbatim>\<open>>=\<close>, with the error of an undefined order
  (\<^verbatim>\<open>TypeError\<close> in the code). So does comparing two dev builds with equal dev counts
  other than 0 and different hashes. Two dev builds with equal dev counts and equal
  hashes compare equal: neither is less than the other.
\<close>

theorem undefined_order:
  assumes "constructed a" and "constructed b"
    and "major a = major b" and "minor a = minor b" and "patch a = patch b"
  shows "(truthy_str (prerelease_type a) \<and> truthy_int (dev_count b) \<longrightarrow>
            sv_lt a (Version b) = Inl TypeError \<and> sv_lt b (Version a) = Inl TypeError
            \<and> sv_le a (Version b) = Inl TypeError \<and> sv_le b (Version a) = Inl TypeError
            \<and> sv_gt a (Version b) = Inl TypeError \<and> sv_gt b (Version a) = Inl TypeError
            \<and> sv_ge a (Version b) = Inl TypeError \<and> sv_ge b (Version a) = Inl TypeError)
       \<and> (truthy_int (dev_count a) \<and> truthy_int (dev_count b)
            \<and> dev_count a = dev_count b \<and> githash a \<noteq> githash b \<longrightarrow>
            sv_lt a (Version b) = Inl TypeError \<and> sv_lt b (Version a) = Inl TypeError
            \<and> sv_le a (Version b) = Inl TypeError \<and> sv_le b (Version a) = Inl TypeError
            \<and> sv_gt a (Version b) = Inl TypeError \<and> sv_gt b (Version a) = Inl TypeError
            \<and> sv_ge a (Version b) = Inl TypeError \<and> sv_ge b (Version a) = Inl TypeError)
       \<and> (dev_count a \<noteq> None
            \<and> dev_count a = dev_count b \<and> githash a = githash b \<longrightarrow>
            sv_lt a (Version b) = Inr False \<and> sv_lt b (Version a) = Inr False
            \<and> sv_ge a (Version b) = Inr True \<and> sv_ge b (Version a) = Inr True)"
proof -
  have pre_dev: "sv_lt a (Version b) = Inl TypeError \<and> sv_lt b (Version a) = Inl TypeError
                 \<and> a \<noteq> b"
    if "truthy_str (prerelease_type a) \<and> truthy_int (dev_count b)"
    using that assms by (cases "dev_count a"; cases "dev_count b")
      (auto simp: sv_lt_def constructed_iff)
  have dev_dev: "sv_lt a (Version b) = Inl TypeError \<and> sv_lt b (Version a) = Inl TypeError
                 \<and> a \<noteq> b"
    if "truthy_int (dev_count a) \<and> truthy_int (dev_count b)
        \<and> dev_count a = dev_count b \<and> githash a \<noteq> githash b"
    using that assms by (cases "dev_count a"; cases "dev_count b")
      (auto simp: sv_lt_def constructed_iff)
  have same: "sv_lt a (Version b) = Inr False \<and> sv_lt b (Version a) = Inr False"
    if "dev_count a \<noteq> None \<and> dev_count a = dev_count b \<and> githash a = githash b"
    using that assms by (cases "dev_count a"; cases "dev_count b")
      (auto simp: sv_lt_def constructed_iff)
  have raise: "sv_le a (Version b) = Inl TypeError \<and> sv_le b (Version a) = Inl TypeError
               \<and> sv_gt a (Version b) = Inl TypeError \<and> sv_gt b (Version a) = Inl TypeError
               \<and> sv_ge a (Version b) = Inl TypeError \<and> sv_ge b (Version a) = Inl TypeError"
    if "sv_lt a (Version b) = Inl TypeError \<and> sv_lt b (Version a) = Inl TypeError \<and> a \<noteq> b"
    using that le_of_lt [of a b] by (simp add: sv_gt_def sv_ge_def)
  have part1: "sv_lt a (Version b) = Inl TypeError \<and> sv_lt b (Version a) = Inl TypeError
            \<and> sv_le a (Version b) = Inl TypeError \<and> sv_le b (Version a) = Inl TypeError
            \<and> sv_gt a (Version b) = Inl TypeError \<and> sv_gt b (Version a) = Inl TypeError
            \<and> sv_ge a (Version b) = Inl TypeError \<and> sv_ge b (Version a) = Inl TypeError"
    if "truthy_str (prerelease_type a) \<and> truthy_int (dev_count b)"
    using pre_dev [OF that] raise [OF pre_dev [OF that]] by simp
  have part2: "sv_lt a (Version b) = Inl TypeError \<and> sv_lt b (Version a) = Inl TypeError
            \<and> sv_le a (Version b) = Inl TypeError \<and> sv_le b (Version a) = Inl TypeError
            \<and> sv_gt a (Version b) = Inl TypeError \<and> sv_gt b (Version a) = Inl TypeError
            \<and> sv_ge a (Version b) = Inl TypeError \<and> sv_ge b (Version a) = Inl TypeError"
    if "truthy_int (dev_count a) \<and> truthy_int (dev_count b)
        \<and> dev_count a = dev_count b \<and> githash a \<noteq> githash b"
    using dev_dev [OF that] raise [OF dev_dev [OF that]] by simp
  have part3: "sv_lt a (Version b) = Inr False \<and> sv_lt b (Version a) = Inr False
            \<and> sv_ge a (Version b) = Inr True \<and> sv_ge b (Version a) = Inr True"
    if "dev_count a \<noteq> None \<and> dev_count a = dev_count b \<and> githash a = githash b"
    using same [OF that] by (simp add: sv_ge_def)
  show ?thesis
    using part1 part2 part3 by blast
qed

theorem undefined_order_witness:
  "sv_lt \<lparr>major = 1, minor = 0, patch = 0, prerelease_type = None, prerelease = None,
           dev_count = Some 2, githash = Some ''a''\<rparr>
     (Version \<lparr>major = 1, minor = 0, patch = 0, prerelease_type = None, prerelease = None,
               dev_count = Some 2, githash = Some ''b''\<rparr>) = Inl TypeError
   \<and> sv_lt \<lparr>major = 1, minor = 0, patch = 0, prerelease_type = Some ''rc'',
             prerelease = Some 1, dev_count = None, githash = None\<rparr>
     (Version \<lparr>major = 1, minor = 0, patch = 0, prerelease_type = None, prerelease = None,
               dev_count = Some 2, githash = Some ''b''\<rparr>) = Inl TypeError
   \<and> sv_ge \<lparr>major = 1, minor = 0, patch = 0, prerelease_type = None, prerelease = None,
             dev_count = Some 2, githash = Some ''b''\<rparr>
     (Version \<lparr>major = 1, minor = 0, patch = 0, prerelease_type = None, prerelease = None,
               dev_count = Some 2, githash = Some ''b''\<rparr>) = Inr True"
  using undefined_order
      [of "\<lparr>major = 1, minor = 0, patch = 0, prerelease_type = None, prerelease = None,
            dev_count = Some 2, githash = Some ''a''\<rparr>"
          "\<lparr>major = 1, minor = 0, patch = 0, prerelease_type = None, prerelease = None,
            dev_count = Some 2, githash = Some ''b''\<rparr>"]
    undefined_order
      [of "\<lparr>major = 1, minor = 0, patch = 0, prerelease_type = Some ''rc'',
            prerelease = Some 1, dev_count = None, githash = None\<rparr>"
          "\<lparr>major = 1, minor = 0, patch = 0, prerelease_type = None, prerelease = None,
            dev_count = Some 2, githash = Some ''b''\<rparr>"]
    undefined_order
      [of "\<lparr>major = 1, minor = 0, patch = 0, prerelease_type = None, prerelease = None,
            dev_count = Some 2, githash = Some ''b''\<rparr>"
          "\<lparr>major = 1, minor = 0, patch = 0, prerelease_type = None, prerelease = None,
            dev_count = Some 2, githash = Some ''b''\<rparr>"]
  by (simp add: constructed_def SemanticVersion_init_def)

text \<open>
  Claim C3 as stated fails when the dev count is 0: the prerelease 1.0.0.0a1 compared
  with the version constructed from 1.0.0 with dev count 0 is less than it, and two such
  versions with dev count 0 and different hashes compare without an error.
\<close>

theorem prerelease_vs_dev_zero_counterexample:
  "SemanticVersion_init 1 0 0 (Some ''a'') (Some 1) None None
     = Inr \<lparr>major = 1, minor = 0, patch = 0, prerelease_type = Some ''a'',
            prerelease = Some 1, dev_count = None, githash = None\<rparr>
   \<and> SemanticVersion_init 1 0 0 None None (Some 0) (Some ''a'')
     = Inr \<lparr>major = 1, minor = 0, patch = 0, prerelease_type = None,
            prerelease = None, dev_count = Some 0, githash = Some ''a''\<rparr>
   \<and> sv_lt \<lparr>major = 1, minor = 0, patch = 0, prerelease_type = Some ''a'',
             prerelease = Some 1, dev_count = None, githash = None\<rparr>
       (Version \<lparr>major = 1, minor = 0, patch = 0, prerelease_type = None,
                 prerelease = None, dev_count = Some 0, githash = Some ''a''\<rparr>) = Inr True
   \<and> sv_lt \<lparr>major = 1, minor = 0, patch = 0, prerelease_type = None,
             prerelease = None, dev_count = Some 0, githash = Some ''a''\<rparr>
       (Version \<lparr>major = 1, minor = 0, patch = 0, prerelease_type = None,
                 prerelease = None, dev_count = Some 0, githash = Some ''b''\<rparr>) = Inr False"
  by (simp add: SemanticVersion_init_def sv_lt_def)

text \<open>
  Claim C6, as the code has it. Take two versions with the same (major, minor, patch).
  \<^verbatim>\<open>__lt__\<close> takes a version for a final release when neither its prerelease type nor
  its dev count is true, so a dev count of 0 counts as none. A final release is greater
  than any prerelease and than any dev build whose dev count is not 0: the other is less
  than it, it is not less than the other, and \<^verbatim>\<open>>\<close> holds. Two final releases compare
  equal: neither is less than the other. Two prereleases compare as their pairs
  (type, serial) do in the lexicographic order, where the type texts satisfy
  \<^verbatim>\<open>a\<close> < \<^verbatim>\<open>b\<close> < \<^verbatim>\<open>rc\<close>.
\<close>

theorem same_triple_order:
  assumes "major a = major b" and "minor a = minor b" and "patch a = patch b"
  shows "(\<not> truthy_str (prerelease_type a) \<and> \<not> truthy_int (dev_count a)
          \<and> (truthy_str (prerelease_type b) \<or> truthy_int (dev_count b)) \<longrightarrow>
            sv_lt b (Version a) = Inr True \<and> sv_lt a (Version b) = Inr False
            \<and> sv_gt a (Version b) = Inr True \<and> sv_gt b (Version a) = Inr False)
       \<and> (\<not> truthy_str (prerelease_type a) \<and> \<not> truthy_int (dev_count a)
          \<and> \<not> truthy_str (prerelease_type b) \<and> \<not> truthy_int (dev_count b) \<longrightarrow>
            sv_lt b (Version a) = Inr False \<and> sv_lt a (Version b) = Inr False
            \<and> sv_ge b (Version a) = Inr True \<and> sv_ge a (Version b) = Inr True)
       \<and> (\<forall>ta sa tb sb.
            prerelease_type a = Some ta \<and> ta \<noteq> [] \<and> prerelease a = Some sa
            \<and> prerelease_type b = Some tb \<and> tb \<noteq> [] \<and> prerelease b = Some sb \<longrightarrow>
            sv_lt a (Version b) = Inr ((ta, sa) < (tb, sb)))
       \<and> ''a'' < ''b'' \<and> ''b'' < ''rc''"
proof -
  have final_other:
    "sv_lt b (Version a) = Inr True \<and> sv_lt a (Version b) = Inr False
     \<and> sv_gt a (Version b) = Inr True \<and> sv_gt b (Version a) = Inr False"
    if h: "\<not> truthy_str (prerelease_type a) \<and> \<not> truthy_int (dev_count a)
           \<and> (truthy_str (prerelease_type b) \<or> truthy_int (dev_count b))"
  proof -
    have l: "sv_lt b (Version a) = Inr True" "sv_lt a (Version b) = Inr False"
      using lt_final_like [of a b] h assms by simp_all
    have "a \<noteq> b"
      using h by auto
    then show ?thesis
      using l le_of_lt [of a b] by (simp add: sv_gt_def)
  qed
  have final_final:
    "sv_lt b (Version a) = Inr False \<and> sv_lt a (Version b) = Inr False
     \<and> sv_ge b (Version a) = Inr True \<and> sv_ge a (Version b) = Inr True"
    if h: "\<not> truthy_str (prerelease_type a) \<and> \<not> truthy_int (dev_count a)
           \<and> \<not> truthy_str (prerelease_type b) \<and> \<not> truthy_int (dev_count b)"
    using lt_both_final [of a b] lt_both_final [of b a] h assms by (simp add: sv_ge_def)
  have pre_pre: "sv_lt a (Version b) = Inr ((ta, sa) < (tb, sb))"
    if "prerelease_type a = Some ta \<and> ta \<noteq> [] \<and> prerelease a = Some sa
        \<and> prerelease_type b = Some tb \<and> tb \<noteq> [] \<and> prerelease b = Some sb"
    for ta sa tb sb
    using that assms by (auto simp: sv_lt_def pair_less_def)
  have types: "''a'' < ''b'' \<and> ''b'' < ''rc''"
    by simp
  show ?thesis
    using final_other final_final pre_pre types by blast
qed

theorem same_triple_order_witness:
  "sv_lt \<lparr>major = 1, minor = 3, patch = 0, prerelease_type = Some ''rc'', prerelease = Some 2,
           dev_count = None, githash = None\<rparr>
     (Version \<lparr>major = 1, minor = 3, patch = 0, prerelease_type = None, prerelease = None,
               dev_count = None, githash = None\<rparr>) = Inr True
   \<and> sv_gt \<lparr>major = 1, minor = 3, patch = 0, prerelease_type = None, prerelease = None,
             dev_count = None, githash = None\<rparr>
       (Version \<lparr>major = 1, minor = 3, patch = 0, prerelease_type = Some ''rc'',
                 prerelease = Some 2, dev_count = None, githash = None\<rparr>) = Inr True
   \<and> sv_lt \<lparr>major = 1, minor = 3, patch = 0, prerelease_type = Some ''b'', prerelease = Some 7,
             dev_count = None, githash = None\<rparr>
       (Version \<lparr>major = 1, minor = 3, patch = 0, prerelease_type = Some ''rc'',
                 prerelease = Some 2, dev_count = None, githash = None\<rparr>) = Inr True"
  using same_triple_order
      [of "\<lparr>major = 1, minor = 3, patch = 0, prerelease_type = None, prerelease = None,
            dev_count = None, githash = None\<rparr>"
          "\<lparr>major = 1, minor = 3, patch = 0, prerelease_type = Some ''rc'', prerelease = Some 2,
            dev_count = None, githash = None\<rparr>"]
    same_triple_order
      [of "\<lparr>major = 1, minor = 3, patch = 0, prerelease_type = Some ''b'', prerelease = Some 7,
            dev_count = None, githash = None\<rparr>"
          "\<lparr>major = 1, minor = 3, patch = 0, prerelease_type = Some ''rc'', prerelease = Some 2,
            dev_count = None, githash = None\<rparr>"]
  by simp

text \<open>
  Claim C6 as stated fails when the dev count is 0: the version constructed from 1.3.0
  with dev count 0 is not less than the final release 1.3.0, so the final release is not
  greater than this dev build; the two compare equal.
\<close>

theorem final_vs_dev_zero_counterexample:
  "SemanticVersion_init 1 3 0 None None (Some 0) None
     = Inr \<lparr>major = 1, minor = 3, patch = 0, prerelease_type = None,
            prerelease = None, dev_count = Some 0, githash = None\<rparr>
   \<and> sv_lt \<lparr>major = 1, minor = 3, patch = 0, prerelease_type = None,
             prerelease = None, dev_count = Some 0, githash = None\<rparr>
       (Version \<lparr>major = 1, minor = 3, patch = 0, prerelease_type = None,
                 prerelease = None, dev_count = None, githash = None\<rparr>) = Inr False
   \<and> sv_lt \<lparr>major = 1, minor = 3, patch = 0, prerelease_type = None,
             prerelease = None, dev_count = None, githash = None\<rparr>
       (Version \<lparr>major = 1, minor = 3, patch = 0, prerelease_type = None,
                 prerelease = None, dev_count = Some 0, githash = None\<rparr>) = Inr False"
  by (simp add: SemanticVersion_init_def sv_lt_def)

text \<open>
  Claim C10. A version constructed with dev count 0 (hence without a prerelease type)
  behaves like the final release of the same (major, minor, patch): the canonical, the
  Debian and the rpm rendering are those of the final release, namely the brief string;
  every prerelease and every dev build with a positive dev count of the same triple is
  less than it, and it is greater than them. Yet \<^verbatim>\<open>==\<close> between it and the final
  release constructed without a dev count is \<^verbatim>\<open>False\<close>.
\<close>

theorem dev_count_zero_like_final:
  assumes "SemanticVersion_init M m p None pr (Some 0) gh = Inr v"
    and "SemanticVersion_init M m p None None None None = Inr f"
  shows "release_string v = release_string f \<and> release_string f = Inr (brief_string f)
       \<and> debian_string v = debian_string f \<and> debian_string f = Inr (brief_string f)
       \<and> rpm_string v = rpm_string f \<and> rpm_string f = Inr (brief_string f)
       \<and> (\<forall>w. major w = M \<and> minor w = m \<and> patch w = p
               \<and> (truthy_str (prerelease_type w) \<or> (\<exists>n. dev_count w = Some n \<and> 0 < n))
             \<longrightarrow> sv_lt w (Version v) = Inr True \<and> sv_lt v (Version w) = Inr False
               \<and> sv_gt v (Version w) = Inr True \<and> sv_gt w (Version v) = Inr False)
       \<and> sv_eq v (Version f) = Inr False \<and> sv_eq f (Version v) = Inr False"
proof -
  have v: "v = \<lparr>major = M, minor = m, patch = p, prerelease_type = None, prerelease = pr,
                dev_count = Some 0, githash = gh\<rparr>"
    using assms(1) by (simp add: SemanticVersion_init_def)
  have f: "f = \<lparr>major = M, minor = m, patch = p, prerelease_type = None, prerelease = None,
                dev_count = None, githash = None\<rparr>"
    using assms(2) by (simp add: SemanticVersion_init_def)
  have r: "release_string v = Inr (brief_string f)" "release_string f = Inr (brief_string f)"
    "debian_string v = Inr (brief_string f)" "debian_string f = Inr (brief_string f)"
    "rpm_string v = Inr (brief_string f)" "rpm_string f = Inr (brief_string f)"
    by (simp_all add: v f release_string_def debian_string_def rpm_string_def
        long_version_def brief_string_def)
  have e: "sv_eq v (Version f) = Inr False" "sv_eq f (Version v) = Inr False"
    by (simp_all add: v f sv_eq_def)
  have o: "sv_lt w (Version v) = Inr True \<and> sv_lt v (Version w) = Inr False
           \<and> sv_gt v (Version w) = Inr True \<and> sv_gt w (Version v) = Inr False"
    if w: "major w = M \<and> minor w = m \<and> patch w = p
           \<and> (truthy_str (prerelease_type w) \<or> (\<exists>n. dev_count w = Some n \<and> 0 < n))" for w
  proof -
    have q: "truthy_str (prerelease_type w) \<or> truthy_int (dev_count w)"
      using w by auto
    have l: "sv_lt w (Version v) = Inr True" "sv_lt v (Version w) = Inr False"
      using lt_final_like [of v w] w q by (simp_all add: v)
    have "prerelease_type w \<noteq> None \<or> dev_count w \<noteq> Some 0"
      using q by auto
    then have "v \<noteq> w"
      by (auto simp: v)
    then show ?thesis
      using l le_of_lt [of v w] by (simp add: sv_gt_def)
  qed
  show ?thesis
    using r e o by simp
qed

theorem dev_count_zero_like_final_witness:
  "release_string \<lparr>major = 1, minor = 2, patch = 3, prerelease_type = None, prerelease = None,
                   dev_count = Some 0, githash = Some ''83bef74''\<rparr>
     = release_string \<lparr>major = 1, minor = 2, patch = 3, prerelease_type = None,
                       prerelease = None, dev_count = None, githash = None\<rparr>
   \<and> sv_lt \<lparr>major = 1, minor = 2, patch = 3, prerelease_type = None, prerelease = None,
             dev_count = Some 4, githash = None\<rparr>
       (Version \<lparr>major = 1, minor = 2, patch = 3, prerelease_type = None, prerelease = None,
                 dev_count = Some 0, githash = Some ''83bef74''\<rparr>) = Inr True
   \<and> sv_eq \<lparr>major = 1, minor = 2, patch = 3, prerelease_type = None, prerelease = None,
             dev_count = Some 0, githash = Some ''83bef74''\<rparr>
       (Version \<lparr>major = 1, minor = 2, patch = 3, prerelease_type = None, prerelease = None,
                 dev_count = None, githash = None\<rparr>) = Inr False"
proof -
  have v: "SemanticVersion_init 1 2 3 None None (Some 0) (Some ''83bef74'')
             = Inr \<lparr>major = 1, minor = 2, patch = 3, prerelease_type = None, prerelease = None,
                    dev_count = Some 0, githash = Some ''83bef74''\<rparr>"
    by (simp add: SemanticVersion_init_def)
  have f: "SemanticVersion_init 1 2 3 None None None None
             = Inr \<lparr>major = 1, minor = 2, patch = 3, prerelease_type = None, prerelease = None,
                    dev_count = None, githash = None\<rparr>"
    by (simp add: SemanticVersion_init_def)
  have w: "major \<lparr>major = 1, minor = 2, patch = 3, prerelease_type = None, prerelease = None,
                  dev_count = Some 4, githash = None\<rparr> = 1
           \<and> minor \<lparr>major = 1, minor = 2, patch = 3, prerelease_type = None, prerelease = None,
                  dev_count = Some 4, githash = None\<rparr> = 2
           \<and> patch \<lparr>major = 1, minor = 2, patch = 3, prerelease_type = None, prerelease = None,
                  dev_count = Some 4, githash = None\<rparr> = 3
           \<and> (truthy_str (prerelease_type \<lparr>major = 1, minor = 2, patch = 3,
                  prerelease_type = None, prerelease = None, dev_count = Some 4,
                  githash = None\<rparr>)
              \<or> (\<exists>n. dev_count \<lparr>major = 1, minor = 2, patch = 3, prerelease_type = None,
                  prerelease = None, dev_count = Some 4, githash = None\<rparr> = Some n \<and> 0 < n))"
    by simp
  show ?thesis
    using dev_count_zero_like_final [OF v f] w by blast
qed

section \<open>Rendering\<close>

text \<open>
  Claim C7, as the code has it. \<^verbatim>\<open>_long_version\<close> takes a qualifier for present when the
  prerelease type or the dev count is true, so a dev count of 0 counts as none. For every
  version with a prerelease type or a dev count other than 0, the rpm rendering starts
  with the brief string of \<^verbatim>\<open>decrement()\<close>, which always succeeds, and appends: for a
  prerelease, \<^verbatim>\<open>.\<close>, the type and the serial; for a dev build, \<^verbatim>\<open>.dev\<close> and the count and,
  when the hash is true, \<^verbatim>\<open>+g\<close> and the hash. For a version with neither, the rpm
  rendering is the brief string.
\<close>

theorem rpm_string_rollover:
  "(truthy_str (prerelease_type v) \<or> truthy_int (dev_count v) \<longrightarrow>
      (\<exists>d. decrement v = Inr d
         \<and> rpm_string v =
             Inr (brief_string d
                  @ (if truthy_str (prerelease_type v)
                     then ''.'' @ str_opt_str (prerelease_type v)
                          @ str_opt_int (prerelease v)
                     else [])
                  @ (if truthy_int (dev_count v)
                     then ''.dev'' @ str_opt_int (dev_count v)
                          @ (if truthy_str (githash v)
                             then ''+g'' @ str_opt_str (githash v) else [])
                     else []))))
   \<and> (\<not> truthy_str (prerelease_type v) \<and> \<not> truthy_int (dev_count v) \<longrightarrow>
        rpm_string v = Inr (brief_string v))"
proof -
  have "\<exists>d. decrement v = Inr d"
    by (simp add: decrement_def SemanticVersion_init_def)
  then obtain d where d: "decrement v = Inr d" ..
  show ?thesis
    by (simp add: d rpm_string_def long_version_def)
qed

theorem rpm_string_rollover_witness:
  "rpm_string \<lparr>major = 1, minor = 0, patch = 0, prerelease_type = Some ''rc'',
               prerelease = Some 12, dev_count = None, githash = None\<rparr>
     = Inr ''0.9999.9999.rc12''
   \<and> rpm_string \<lparr>major = 1, minor = 3, patch = 0, prerelease_type = None, prerelease = None,
                 dev_count = Some 3, githash = Some ''83bef74''\<rparr>
     = Inr ''1.2.9999.dev3+g83bef74''
   \<and> rpm_string \<lparr>major = 1, minor = 3, patch = 0, prerelease_type = None, prerelease = None,
                 dev_count = None, githash = None\<rparr>
     = Inr ''1.3.0''"
proof -
  have "decrement \<lparr>major = 1, minor = 0, patch = 0, prerelease_type = Some ''rc'',
               prerelease = Some 12, dev_count = None, githash = None\<rparr>
        = Inr \<lparr>major = 0, minor = 9999, patch = 9999, prerelease_type = None,
               prerelease = None, dev_count = None, githash = None\<rparr>"
    by (simp add: decrement_def SemanticVersion_init_def)
  moreover have "decrement \<lparr>major = 1, minor = 3, patch = 0, prerelease_type = None,
               prerelease = None, dev_count = Some 3, githash = Some ''83bef74''\<rparr>
        = Inr \<lparr>major = 1, minor = 2, patch = 9999, prerelease_type = None,
               prerelease = None, dev_count = None, githash = None\<rparr>"
    by (simp add: decrement_def SemanticVersion_init_def)
  ultimately show ?thesis
    using rpm_string_rollover
        [of "\<lparr>major = 1, minor = 0, patch = 0, prerelease_type = Some ''rc'',
              prerelease = Some 12, dev_count = None, githash = None\<rparr>"]
      rpm_string_rollover
        [of "\<lparr>major = 1, minor = 3, patch = 0, prerelease_type = None, prerelease = None,
              dev_count = Some 3, githash = Some ''83bef74''\<rparr>"]
      rpm_string_rollover
        [of "\<lparr>major = 1, minor = 3, patch = 0, prerelease_type = None, prerelease = None,
              dev_count = None, githash = None\<rparr>"]
    by (simp add: brief_string_def str_int_def str_nat.simps digit_char_def)
qed

text \<open>
  Claim C7 as stated fails when the dev count is 0: for the version constructed from
  1.3.0 with dev count 0 and a hash, the rpm rendering is the brief string \<^verbatim>\<open>1.3.0\<close>; it
  does not start from the decremented version \<^verbatim>\<open>1.2.9999\<close> and has no dev segment.
\<close>

theorem rpm_string_dev_zero_counterexample:
  "SemanticVersion_init 1 3 0 None None (Some 0) (Some ''83bef74'')
     = Inr \<lparr>major = 1, minor = 3, patch = 0, prerelease_type = None,
            prerelease = None, dev_count = Some 0, githash = Some ''83bef74''\<rparr>
   \<and> rpm_string \<lparr>major = 1, minor = 3, patch = 0, prerelease_type = None,
                  prerelease = None, dev_count = Some 0, githash = Some ''83bef74''\<rparr>
     = Inr ''1.3.0''
   \<and> bind_err (decrement \<lparr>major = 1, minor = 3, patch = 0, prerelease_type = None,
                  prerelease = None, dev_count = Some 0, githash = Some ''83bef74''\<rparr>)
         (\<lambda>d. Inr (brief_string d))
     = Inr ''1.2.9999''"
  by (simp add: SemanticVersion_init_def rpm_string_def long_version_def decrement_def
      brief_string_def str_int_def str_nat.simps digit_char_def)

section \<open>Parsing\<close>

text \<open>
  Claim C4 says that a first remainder element made of an optional leading digit, one of
  the letter sequences \<^verbatim>\<open>a\<close>, \<^verbatim>\<open>b\<close>, \<^verbatim>\<open>rc\<close> and trailing digits is parsed as a
  prerelease, for \<^verbatim>\<open>1.3.0a1\<close> and likewise for an \<^verbatim>\<open>rc\<close> qualifier without a leading digit,
  as in \<^verbatim>\<open>1.2.3.rc1\<close>. The code parses \<^verbatim>\<open>1.3.0a1\<close>, \<^verbatim>\<open>1.2.3.b4\<close> and \<^verbatim>\<open>1.2.3.0rc1\<close> so, but
  on \<^verbatim>\<open>1.2.3.rc1\<close> it raises \<^verbatim>\<open>ValueError\<close>: the test
  \<^verbatim>\<open>remainder[0][0] in ('a', 'b', 'rc')\<close> compares one character with \<^verbatim>\<open>rc\<close>, which is
  never equal, so the element is taken for a dev marker and \<^verbatim>\<open>int('')\<close> fails.
\<close>

theorem from_pip_string_rc_without_digit:
  "from_pip_string ''1.2.3.rc1'' = Inl ValueError
   \<and> from_pip_string ''1.3.0a1''
       = Inr \<lparr>major = 1, minor = 3, patch = 0, prerelease_type = Some ''a'',
              prerelease = Some 1, dev_count = None, githash = None\<rparr>
   \<and> from_pip_string ''1.2.3.b4''
       = Inr \<lparr>major = 1, minor = 2, patch = 3, prerelease_type = Some ''b'',
              prerelease = Some 4, dev_count = None, githash = None\<rparr>
   \<and> from_pip_string ''1.2.3.0rc1''
       = Inr \<lparr>major = 1, minor = 2, patch = 3, prerelease_type = Some ''rc'',
              prerelease = Some 1, dev_count = None, githash = None\<rparr>"
  by code_simp

text \<open>
  Claim C5 says that in the legacy layout \<^verbatim>\<open>major.minor.patch.N.gHASH\<close> the dev count is
  N, also for N = 0, and the hash is the next element without its first character. The
  code does so for \<^verbatim>\<open>0.10.1.3.g83bef74\<close>, but on \<^verbatim>\<open>0.10.1.0.g83bef74\<close> it raises
  \<^verbatim>\<open>ValueError\<close>: \<^verbatim>\<open>remainder_starts_with_int\<close> is set by the truth value of
  \<^verbatim>\<open>int(remainder[0])\<close>, which is false for 0, so the element \<^verbatim>\<open>0\<close> is handed to
  \<^verbatim>\<open>_parse_type\<close>, where \<^verbatim>\<open>int('')\<close> fails.
\<close>

theorem from_pip_string_legacy_zero:
  "from_pip_string ''0.10.1.0.g83bef74'' = Inl ValueError
   \<and> from_pip_string ''0.10.1.3.g83bef74''
       = Inr \<lparr>major = 0, minor = 10, patch = 1, prerelease_type = None,
              prerelease = None, dev_count = Some 3, githash = Some ''83bef74''\<rparr>"
  by code_simp

section \<open>Round trip\<close>

text \<open>
  Claim C1. For every version whose canonical rendering keeps its attributes apart
  (\<open>canonical_unambiguous\<close>: no prerelease or dev value that \<^verbatim>\<open>release_string\<close> drops or
  runs together with its neighbour), \<^verbatim>\<open>release_string\<close> returns a text, parsing that
  text with \<^verbatim>\<open>from_pip_string\<close> returns a version, and that version is \<^verbatim>\<open>==\<close> to the
  one rendered (it is the same record). By \<open>round_trip_only_unambiguous\<close> these are
  all the instances that come back.
\<close>

theorem release_string_round_trip:
  assumes "canonical_unambiguous v"
  shows "\<exists>s w. release_string v = Inr s \<and> from_pip_string s = Inr w
           \<and> sv_eq w (Version v) = Inr True \<and> w = v"
proof -
  obtain M m p pt pr dc gh where v:
    "v = \<lparr>major = M, minor = m, patch = p, prerelease_type = pt, prerelease = pr,
          dev_count = dc, githash = gh\<rparr>"
    by (cases v) auto
  have goal: "\<exists>s. release_string v = Inr s \<and> from_pip_string s = Inr v"
  proof (cases pt)
    case (Some t)
    then obtain k where f: "t \<noteq> []" "list_all isalpha t" "pr = Some k" "dc = None" "gh = None"
      using assms by (auto simp: canonical_unambiguous_def v)
    have "release_string v
            = Inr (str_int M @ ''.'' @ str_int m @ ''.'' @ str_int p @ ''.''
                   @ CHR ''0'' # t @ str_int k)"
      by (simp add: v Some f release_string_def long_version_def brief_string_def)
    moreover have "from_pip_string (str_int M @ ''.'' @ str_int m @ ''.'' @ str_int p @ ''.''
                     @ CHR ''0'' # t @ str_int k) = Inr v"
    proof -
      have "CHR ''.'' \<notin> set (CHR ''0'' # t @ str_int k)"
        using f(2) isalpha_not_others str_int_no_dot [of k] by (auto simp: list_all_iff)
      then have "split_str CHR ''.'' (CHR ''0'' # t @ str_int k) = [CHR ''0'' # t @ str_int k]"
        by (rule split_str_no_sep)
      then have "split_str CHR ''.'' (str_int M @ ''.'' @ str_int m @ ''.'' @ str_int p @ ''.''
                     @ CHR ''0'' # t @ str_int k)
                 = [str_int M, str_int m, str_int p, CHR ''0'' # t @ str_int k]"
        by (simp only: split_triple_more)
      then show ?thesis
        using from_pip_pre [OF _ f(1,2)] by (simp add: v Some f)
    qed
    ultimately show ?thesis by blast
  next
    case None
    then have pr: "pr = None"
      using assms by (simp add: canonical_unambiguous_def v)
    show ?thesis
    proof (cases dc)
      case dcNone: None
      then have gh: "gh = None"
        using assms None by (simp add: canonical_unambiguous_def v)
      have "release_string v = Inr (str_int M @ ''.'' @ str_int m @ ''.'' @ str_int p)"
        by (simp add: v None pr dcNone gh release_string_def long_version_def brief_string_def)
      moreover have "from_pip_string (str_int M @ ''.'' @ str_int m @ ''.'' @ str_int p) = Inr v"
        using from_pip_final [OF split_triple] by (simp add: v None pr dcNone gh)
      ultimately show ?thesis by blast
    next
      case (Some d)
      then have d: "d \<noteq> 0"
        using assms None by (simp add: canonical_unambiguous_def v)
      have dot_dev: "CHR ''.'' \<notin> set (''dev'' @ str_int d)"
        using str_int_no_dot [of d] by simp
      show ?thesis
      proof (cases gh)
        case ghNone: None
        have "release_string v
                = Inr (str_int M @ ''.'' @ str_int m @ ''.'' @ str_int p @ ''.''
                       @ ''dev'' @ str_int d)"
          by (simp add: v None pr Some d ghNone release_string_def long_version_def
              brief_string_def)
        moreover have "split_str CHR ''.'' (''dev'' @ str_int d) = [''dev'' @ str_int d]"
          using dot_dev by (rule split_str_no_sep)
        then have "split_str CHR ''.'' (str_int M @ ''.'' @ str_int m @ ''.'' @ str_int p
                         @ ''.'' @ ''dev'' @ str_int d)
                       = [str_int M, str_int m, str_int p, ''dev'' @ str_int d]"
          by (simp only: split_triple_more)
        then have "from_pip_string (str_int M @ ''.'' @ str_int m @ ''.'' @ str_int p
                         @ ''.'' @ ''dev'' @ str_int d) = Inr v"
          using from_pip_dev by (simp add: v None pr Some ghNone)
        ultimately show ?thesis by blast
      next
        case ghSome: (Some h)
        then have h: "h \<noteq> []" "CHR ''.'' \<notin> set h"
          using assms None Some by (simp_all add: canonical_unambiguous_def v)
        have "release_string v
                = Inr (str_int M @ ''.'' @ str_int m @ ''.'' @ str_int p @ ''.''
                       @ (''dev'' @ str_int d) @ ''.'' @ CHR ''g'' # h)"
          by (simp add: v None pr Some d ghSome h release_string_def long_version_def
              brief_string_def)
        moreover have "split_str CHR ''.'' ((''dev'' @ str_int d) @ ''.'' @ CHR ''g'' # h)
                         = [''dev'' @ str_int d, CHR ''g'' # h]"
          using split_str_append [OF dot_dev, of "CHR ''g'' # h"]
            split_str_no_sep [of "CHR ''.''" "CHR ''g'' # h"] h(2)
          by simp
        then have "split_str CHR ''.'' (str_int M @ ''.'' @ str_int m @ ''.'' @ str_int p
                         @ ''.'' @ (''dev'' @ str_int d) @ ''.'' @ CHR ''g'' # h)
                       = str_int M # str_int m # str_int p # (''dev'' @ str_int d)
                         # (CHR ''g'' # h) # []"
          by (simp only: split_triple_more)
        then have "from_pip_string (str_int M @ ''.'' @ str_int m @ ''.'' @ str_int p
                         @ ''.'' @ (''dev'' @ str_int d) @ ''.'' @ CHR ''g'' # h) = Inr v"
          using from_pip_dev_hash by (simp add: v None pr Some ghSome)
        ultimately show ?thesis by blast
      qed
    qed
  qed
  then show ?thesis
    by (auto simp: eq_versions)
qed

theorem release_string_round_trip_witness:
  "canonical_unambiguous \<lparr>major = 1, minor = 3, patch = 0, prerelease_type = Some ''a'',
                          prerelease = Some 1, dev_count = None, githash = None\<rparr>
   \<and> canonical_unambiguous \<lparr>major = 0, minor = 10, patch = 1, prerelease_type = None,
                          prerelease = None, dev_count = Some 3, githash = Some ''83bef74''\<rparr>
   \<and> (\<exists>s. release_string \<lparr>major = 1, minor = 3, patch = 0, prerelease_type = Some ''a'',
                            prerelease = Some 1, dev_count = None, githash = None\<rparr> = Inr s
          \<and> from_pip_string s
              = Inr \<lparr>major = 1, minor = 3, patch = 0, prerelease_type = Some ''a'',
                     prerelease = Some 1, dev_count = None, githash = None\<rparr>)
   \<and> (\<exists>s. release_string \<lparr>major = 0, minor = 10, patch = 1, prerelease_type = None,
                            prerelease = None, dev_count = Some 3,
                            githash = Some ''83bef74''\<rparr> = Inr s
          \<and> from_pip_string s
              = Inr \<lparr>major = 0, minor = 10, patch = 1, prerelease_type = None,
                     prerelease = None, dev_count = Some 3, githash = Some ''83bef74''\<rparr>)"
proof -
  have a: "canonical_unambiguous \<lparr>major = 1, minor = 3, patch = 0,
             prerelease_type = Some ''a'', prerelease = Some 1, dev_count = None,
             githash = None\<rparr>"
    by (simp add: canonical_unambiguous_def isalpha_def)
  have b: "canonical_unambiguous \<lparr>major = 0, minor = 10, patch = 1, prerelease_type = None,
             prerelease = None, dev_count = Some 3, githash = Some ''83bef74''\<rparr>"
    by (simp add: canonical_unambiguous_def)
  show ?thesis
    using a b release_string_round_trip [OF a] release_string_round_trip [OF b] by blast
qed

end
